theory Spec2Isabelle
  imports Main "HOL-Library.Word"
begin

section \<open>JavaScript values\<close>

text \<open>
  A JavaScript string is a sequence of UTF-16 code units. The regular expressions of
  \<^verbatim>\<open>middleware.ts\<close> carry no \<^verbatim>\<open>u\<close> flag, so they match code unit by code unit.
  \<open>utf16\<close> writes an ASCII literal as such a sequence.
\<close>

type_synonym code_unit = "16 word"
type_synonym jsstring = "code_unit list"

definition utf16 :: "string \<Rightarrow> jsstring" where
  "utf16 s = map (\<lambda>c. of_nat (of_char c)) s"

text \<open>
  The values a parsed JSON body or a parsed query string holds. A number stands as its
  decimal string, the result of \<^verbatim>\<open>String(n)\<close>; how that string is computed from the double
  is not modelled. It is \<^verbatim>\<open>"0"\<close> exactly when the number is zero.
\<close>

datatype jsvalue =
    Null
  | Boolean bool
  | Number jsstring
  | Str jsstring
  | Array "jsvalue list"
  | Object "(jsstring \<times> jsvalue) list"

text \<open>Truthiness; \<open>None\<close> is \<^verbatim>\<open>undefined\<close>, a property that is absent.\<close>

fun truthyValue :: "jsvalue \<Rightarrow> bool" where
  "truthyValue Null = False"
| "truthyValue (Boolean b) = b"
| "truthyValue (Number s) = (s \<noteq> utf16 ''0'')"
| "truthyValue (Str s) = (s \<noteq> [])"
| "truthyValue (Array vs) = True"
| "truthyValue (Object kvs) = True"

definition truthy :: "jsvalue option \<Rightarrow> bool" where
  "truthy v = (case v of None \<Rightarrow> False | Some x \<Rightarrow> truthyValue x)"

text \<open>An array of strings joined by commas.\<close>

fun arrayToString :: "jsstring list \<Rightarrow> jsstring" where
  "arrayToString [] = []"
| "arrayToString [x] = x"
| "arrayToString (x # y # ys) = x @ utf16 '','' @ arrayToString (y # ys)"

text \<open>
  Conversion to a string, as \<^verbatim>\<open>regex.test(v)\<close>, a template literal and the method call
  \<^verbatim>\<open>v.toString()\<close> perform it on a truthy value; \<open>None\<close> is a thrown \<^verbatim>\<open>TypeError\<close>. An
  array joins the strings of its elements, with \<^verbatim>\<open>null\<close> as the empty string. An object
  parsed from JSON holds no function: if it has a property of its own named
  \<^verbatim>\<open>toString\<close>, that property is not callable and the conversion throws; otherwise the
  inherited method gives \<^verbatim>\<open>"[object Object]"\<close>.
\<close>

fun toString :: "jsvalue \<Rightarrow> jsstring option" where
  "toString Null = Some (utf16 ''null'')"
| "toString (Boolean b) = Some (if b then utf16 ''true'' else utf16 ''false'')"
| "toString (Number s) = Some s"
| "toString (Str s) = Some s"
| "toString (Array vs) =
     map_option arrayToString (those (map (\<lambda>v. if v = Null then Some [] else toString v) vs))"
| "toString (Object kvs) =
     (if utf16 ''toString'' \<in> fst ` set kvs then None else Some (utf16 ''[object Object]''))"

text \<open>String conversion inside a template literal.\<close>

definition templateStr :: "jsvalue option \<Rightarrow> jsstring option" where
  "templateStr v = (case v of None \<Rightarrow> Some (utf16 ''undefined'') | Some x \<Rightarrow> toString x)"

section \<open>Regular expressions\<close>

text \<open>
  The fragment of JavaScript's regular expressions that the validators use: literal
  characters, \<^verbatim>\<open>.\<close>, the escapes \<^verbatim>\<open>\w\<close> and \<^verbatim>\<open>\S\<close>, bracket classes, sequencing,
  and the quantifiers \<^verbatim>\<open>+\<close> and \<^verbatim>\<open>{m,n}\<close>.
\<close>

definition isWordChar :: "code_unit \<Rightarrow> bool" where
  "isWordChar c \<longleftrightarrow>
     (0x30 \<le> c \<and> c \<le> 0x39) \<or> (0x41 \<le> c \<and> c \<le> 0x5A) \<or> c = 0x5F \<or> (0x61 \<le> c \<and> c \<le> 0x7A)"

definition isLineTerminator :: "code_unit \<Rightarrow> bool" where
  "isLineTerminator c \<longleftrightarrow> c = 0x0A \<or> c = 0x0D \<or> c = 0x2028 \<or> c = 0x2029"

definition isWhiteSpace :: "code_unit \<Rightarrow> bool" where
  "isWhiteSpace c \<longleftrightarrow>
     c = 0x09 \<or> c = 0x0B \<or> c = 0x0C \<or> c = 0x20 \<or> c = 0xA0 \<or> c = 0x1680
     \<or> (0x2000 \<le> c \<and> c \<le> 0x200A) \<or> c = 0x202F \<or> c = 0x205F \<or> c = 0x3000 \<or> c = 0xFEFF"

datatype atom =
    Lit code_unit
  | Dot
  | EscW
  | EscNonSpace
  | Class "atom list"

fun atomMatches :: "atom \<Rightarrow> code_unit \<Rightarrow> bool" where
  "atomMatches (Lit a) c = (c = a)"
| "atomMatches Dot c = (\<not> isLineTerminator c)"
| "atomMatches EscW c = isWordChar c"
| "atomMatches EscNonSpace c = (\<not> (isWhiteSpace c \<or> isLineTerminator c))"
| "atomMatches (Class as) c = (\<exists>a \<in> set as. atomMatches a c)"

datatype regex =
    Never
  | Empty
  | Atom atom
  | Seq regex regex
  | Alt regex regex
  | Star regex

definition OneOrMore :: "regex \<Rightarrow> regex" where
  "OneOrMore r = Seq r (Star r)"

definition Optional :: "regex \<Rightarrow> regex" where
  "Optional r = Alt Empty r"

fun Exactly :: "nat \<Rightarrow> regex \<Rightarrow> regex" where
  "Exactly 0 r = Empty"
| "Exactly (Suc n) r = Seq r (Exactly n r)"

fun AtMost :: "nat \<Rightarrow> regex \<Rightarrow> regex" where
  "AtMost 0 r = Empty"
| "AtMost (Suc n) r = Optional (Seq r (AtMost n r))"

definition Between :: "nat \<Rightarrow> nat \<Rightarrow> regex \<Rightarrow> regex" where
  "Between m n r = Seq (Exactly m r) (AtMost (n - m) r)"

text \<open>The strings a regular expression denotes.\<close>

inductive_set star :: "jsstring set \<Rightarrow> jsstring set" for L :: "jsstring set" where
  star_nil: "[] \<in> star L"
| star_app: "u \<in> L \<Longrightarrow> v \<in> star L \<Longrightarrow> u @ v \<in> star L"

fun lang :: "regex \<Rightarrow> jsstring set" where
  "lang Never = {}"
| "lang Empty = {[]}"
| "lang (Atom a) = {[c] |c. atomMatches a c}"
| "lang (Seq r s) = {u @ v |u v. u \<in> lang r \<and> v \<in> lang s}"
| "lang (Alt r s) = lang r \<union> lang s"
| "lang (Star r) = star (lang r)"

text \<open>
  The matcher: \<open>residual c r\<close> denotes what may follow \<open>c\<close> in a string of \<open>r\<close>, and
  \<open>acceptsEmpty r\<close> tells whether \<open>r\<close> denotes the empty string. \<open>test r s\<close> is
  \<^verbatim>\<open>/^r$/.test(s)\<close>: without the \<^verbatim>\<open>m\<close> flag the anchors are the two ends of the input,
  and a regular expression literal evaluated inside the function body is a fresh object
  at every call, so the \<^verbatim>\<open>g\<close> flag's \<^verbatim>\<open>lastIndex\<close> is always 0.
\<close>

fun acceptsEmpty :: "regex \<Rightarrow> bool" where
  "acceptsEmpty Never = False"
| "acceptsEmpty Empty = True"
| "acceptsEmpty (Atom a) = False"
| "acceptsEmpty (Seq r s) = (acceptsEmpty r \<and> acceptsEmpty s)"
| "acceptsEmpty (Alt r s) = (acceptsEmpty r \<or> acceptsEmpty s)"
| "acceptsEmpty (Star r) = True"

fun residual :: "code_unit \<Rightarrow> regex \<Rightarrow> regex" where
  "residual c Never = Never"
| "residual c Empty = Never"
| "residual c (Atom a) = (if atomMatches a c then Empty else Never)"
| "residual c (Seq r s) =
     (if acceptsEmpty r then Alt (Seq (residual c r) s) (residual c s)
      else Seq (residual c r) s)"
| "residual c (Alt r s) = Alt (residual c r) (residual c s)"
| "residual c (Star r) = Seq (residual c r) (Star r)"

fun test :: "regex \<Rightarrow> jsstring \<Rightarrow> bool" where
  "test r [] = acceptsEmpty r"
| "test r (c # cs) = test (residual c r) cs"


text \<open>
  The three patterns of \<^verbatim>\<open>middleware.ts\<close>.
  \<^item> \<^verbatim>\<open>/^\w+$/i\<close>: the \<^verbatim>\<open>i\<close> flag changes nothing, since without the \<^verbatim>\<open>u\<close> flag no
    code unit outside ASCII is canonicalised to an ASCII one and \<^verbatim>\<open>\w\<close> holds both cases
    of every letter.
  \<^item> \<^verbatim>\<open>/^[\w-.]+@([\w-]+.)+[\w-]{2,4}$/g\<close>: inside a class, \<^verbatim>\<open>-\<close> next to \<^verbatim>\<open>\w\<close> is a
    literal hyphen and \<^verbatim>\<open>.\<close> a literal full stop; outside a class the \<^verbatim>\<open>.\<close> that ends
    each group is not escaped, so it is the wildcard.
  \<^item> \<^verbatim>\<open>/^\S+$/\<close>.
\<close>

definition usernameRegex :: regex where
  "usernameRegex = OneOrMore (Atom EscW)"

definition emailRegex :: regex where
  "emailRegex =
     Seq (OneOrMore (Atom (Class [EscW, Lit 0x2D, Lit 0x2E])))
    (Seq (Atom (Lit 0x40))
    (Seq (OneOrMore (Seq (OneOrMore (Atom (Class [EscW, Lit 0x2D]))) (Atom Dot)))
         (Between 2 4 (Atom (Class [EscW, Lit 0x2D])))))"

definition passwordRegex :: regex where
  "passwordRegex = OneOrMore (Atom EscNonSpace)"

section \<open>Requests, responses and the user collection\<close>

text \<open>
  The session's \<^verbatim>\<open>userId\<close> is written by the server only: it is \<^verbatim>\<open>undefined\<close> or the string
  of a document id. The fields of the body and of the query that the checks read hold
  whatever the client sent, or are absent (\<open>None\<close>).
\<close>

record Session =
  userId :: "jsstring option"

record Body =
  username :: "jsvalue option"
  email :: "jsvalue option"
  password :: "jsvalue option"
  notifPeriod :: "jsvalue option"

record Query =
  queryUsername :: "jsvalue option"
  queryAuthor :: "jsvalue option"

record Request =
  session :: Session
  body :: Body
  query :: Query

datatype Json =
    JString jsstring
  | JObject "(string \<times> Json) list"

text \<open>
  The response remembers the status code last set and every body sent, each with the status
  code it was sent under. \<open>nextCalls\<close> counts the calls of \<^verbatim>\<open>next()\<close>. No check catches
  an exception: \<open>uncaught\<close> lists the exceptions that left a check, a \<^verbatim>\<open>TypeError\<close> of a
  failed conversion or the rejection of an awaited promise.
\<close>

record Response =
  statusCode :: nat
  sent :: "(nat \<times> Json) list"

datatype exception = TypeError | Rejection

record Http =
  req :: Request
  res :: Response
  nextCalls :: nat
  uncaught :: "exception list"

definition callNext :: "Http \<Rightarrow> Http" where
  "callNext h = h\<lparr>nextCalls := nextCalls h + 1\<rparr>"

definition status :: "nat \<Rightarrow> Http \<Rightarrow> Http" where
  "status code h = h\<lparr>res := (res h)\<lparr>statusCode := code\<rparr>\<rparr>"

definition json :: "Json \<Rightarrow> Http \<Rightarrow> Http" where
  "json b h = h\<lparr>res := (res h)\<lparr>sent := sent (res h) @ [(statusCode (res h), b)]\<rparr>\<rparr>"

definition setSessionUserId :: "jsstring option \<Rightarrow> Http \<Rightarrow> Http" where
  "setSessionUserId v h = h\<lparr>req := (req h)\<lparr>session := (session (req h))\<lparr>userId := v\<rparr>\<rparr>\<rparr>"

definition throw :: "exception \<Rightarrow> Http \<Rightarrow> Http" where
  "throw e h = h\<lparr>uncaught := uncaught h @ [e]\<rparr>"

text \<open>
  A user document; \<open>userIdString\<close> is the value of \<^verbatim>\<open>_id.toString()\<close>.
  \<^verbatim>\<open>UserCollection\<close> is imported from \<^verbatim>\<open>../user/collection\<close>; the checks await four of its
  lookups, which are parameters here. An awaited lookup resolves with a document or with
  nothing, or it rejects. The lookup by user id is given the session's string; the others
  are given the value found in the body or the query, whatever it is.
\<close>

record User =
  userIdString :: jsstring
  userUsername :: jsstring
  userEmail :: jsstring
  userPassword :: jsstring

datatype 'a promise = Resolved 'a | Rejected

record UserCollection =
  findOneByUserId :: "jsstring \<Rightarrow> User option promise"
  findOneByEmailAndPassword :: "jsvalue \<Rightarrow> jsvalue \<Rightarrow> User option promise"
  findOneByUsername :: "jsvalue \<Rightarrow> User option promise"
  findOneByEmail :: "jsvalue \<Rightarrow> User option promise"

section \<open>The middleware checks\<close>

definition isCurrentSessionUserExists :: "UserCollection \<Rightarrow> Http \<Rightarrow> Http" where
  "isCurrentSessionUserExists db h =
     (if truthy (map_option Str (userId (session (req h)))) then
        (case findOneByUserId db (the (userId (session (req h)))) of
           Rejected \<Rightarrow> throw Rejection h
         | Resolved None \<Rightarrow>
             (let h1 = setSessionUserId None h;
                  h2 = status 500 h1
              in json (JObject [(''error'',
                   JObject [(''userNotFound'', JString (utf16 ''User session was not recognized.''))])]) h2)
         | Resolved (Some user) \<Rightarrow> callNext h)
      else callNext h)"

definition isValidUsername :: "Http \<Rightarrow> Http" where
  "isValidUsername h =
     (if truthy (username (body (req h))) then
        (case toString (the (username (body (req h)))) of
           None \<Rightarrow> throw TypeError h
         | Some s \<Rightarrow>
             if \<not> test usernameRegex s then
               json (JObject [(''error'',
                 JObject [(''username'', JString (utf16 ''Username must be a nonempty alphanumeric string.''))])])
                 (status 400 h)
             else callNext h)
      else callNext h)"

definition isValidEmail :: "Http \<Rightarrow> Http" where
  "isValidEmail h =
     (if truthy (email (body (req h))) then
        (case toString (the (email (body (req h)))) of
           None \<Rightarrow> throw TypeError h
         | Some s \<Rightarrow>
             if \<not> test emailRegex s then
               json (JObject [(''error'', JString (utf16 ''Email must be a valid email!''))]) (status 400 h)
             else callNext h)
      else callNext h)"

definition isValidPassword :: "Http \<Rightarrow> Http" where
  "isValidPassword h =
     (if truthy (password (body (req h))) then
        (case toString (the (password (body (req h)))) of
           None \<Rightarrow> throw TypeError h
         | Some s \<Rightarrow>
             if \<not> test passwordRegex s then
               json (JObject [(''error'', JString (utf16 ''Password must be a nonempty string.''))]) (status 400 h)
             else callNext h)
      else callNext h)"

definition validPeriod :: "jsstring list" where
  "validPeriod = [utf16 ''daily'', utf16 ''weekly'', utf16 ''monthly'', utf16 ''none'']"

definition isValidPeriod :: "Http \<Rightarrow> Http" where
  "isValidPeriod h =
     (if truthy (notifPeriod (body (req h))) then
        (case toString (the (notifPeriod (body (req h)))) of
           None \<Rightarrow> throw TypeError h
         | Some s \<Rightarrow>
             if s \<notin> set validPeriod then
               json (JObject [(''error'',
                 JString (utf16 ''Period must be one of the following: '' @ arrayToString validPeriod))])
                 (status 400 h)
             else callNext h)
      else callNext h)"

definition isAccountExists :: "UserCollection \<Rightarrow> Http \<Rightarrow> Http" where
  "isAccountExists db h =
     (let email = email (body (req h)); password = password (body (req h)) in
      if \<not> truthy email \<or> \<not> truthy password then
        json (JObject [(''error'',
          JString (utf16 ''Missing '' @ (if truthy email then utf16 ''password'' else utf16 ''email'')
                   @ utf16 '' credentials for sign in.''))])
          (status 400 h)
      else
        (case findOneByEmailAndPassword db (the email) (the password) of
           Rejected \<Rightarrow> throw Rejection h
         | Resolved (Some user) \<Rightarrow> callNext h
         | Resolved None \<Rightarrow>
             json (JObject [(''error'', JString (utf16 ''Invalid user login credentials provided.''))])
               (status 401 h)))"

definition isUsernameNotAlreadyInUse :: "UserCollection \<Rightarrow> Http \<Rightarrow> Http" where
  "isUsernameNotAlreadyInUse db h =
     (if \<not> truthy (username (body (req h))) then callNext h
      else
        (case findOneByUsername db (the (username (body (req h)))) of
           Rejected \<Rightarrow> throw Rejection h
         | Resolved user \<Rightarrow>
             if user = None \<or> map_option userIdString user = userId (session (req h)) then callNext h
             else
               json (JObject [(''error'',
                 JObject [(''username'', JString (utf16 ''An account with this username already exists.''))])])
                 (status 409 h)))"

definition isUserLoggedIn :: "Http \<Rightarrow> Http" where
  "isUserLoggedIn h =
     (if \<not> truthy (map_option Str (userId (session (req h)))) then
        json (JObject [(''error'',
          JObject [(''auth'', JString (utf16 ''You must be logged in to complete this action.''))])])
          (status 403 h)
      else callNext h)"

definition isUserLoggedOut :: "Http \<Rightarrow> Http" where
  "isUserLoggedOut h =
     (if truthy (map_option Str (userId (session (req h)))) then
        json (JObject [(''error'', JString (utf16 ''You are already signed in.''))]) (status 403 h)
      else callNext h)"

definition isEmailNotAlreadyInUse :: "UserCollection \<Rightarrow> Http \<Rightarrow> Http" where
  "isEmailNotAlreadyInUse db h =
     (if \<not> truthy (email (body (req h))) then callNext h
      else
        (case findOneByEmail db (the (email (body (req h)))) of
           Rejected \<Rightarrow> throw Rejection h
         | Resolved user \<Rightarrow>
             if user = None \<or> map_option userIdString user = userId (session (req h)) then callNext h
             else
               json (JObject [(''error'',
                 JObject [(''username'', JString (utf16 ''An account with this email already exists.''))])])
                 (status 409 h)))"

text \<open>
  In the last check \<^verbatim>\<open>res.status(404)\<close> is evaluated before the template literal that is
  the argument of \<^verbatim>\<open>json\<close>, so a conversion that throws there leaves the status code set.
\<close>

definition isUsernameExists :: "UserCollection \<Rightarrow> Http \<Rightarrow> Http" where
  "isUsernameExists db h =
     (if \<not> truthy (queryUsername (query (req h))) then
        json (JObject [(''error'', JString (utf16 ''Provided username must be nonempty''))]) (status 400 h)
      else
        (case findOneByUsername db (the (queryUsername (query (req h)))) of
           Rejected \<Rightarrow> throw Rejection h
         | Resolved None \<Rightarrow>
             (let h1 = status 404 h in
              case templateStr (queryAuthor (query (req h))) of
                None \<Rightarrow> throw TypeError h1
              | Some author \<Rightarrow>
                  json (JObject [(''error'',
                    JString (utf16 ''A user with username '' @ author @ utf16 '' does not exist.''))]) h1)
         | Resolved (Some user) \<Rightarrow> callNext h))"

text \<open>The exported checks, by name.\<close>

datatype check =
    IsCurrentSessionUserExists
  | IsUserLoggedIn
  | IsUserLoggedOut
  | IsUsernameNotAlreadyInUse
  | IsAccountExists
  | IsValidUsername
  | IsValidPassword
  | IsValidEmail
  | IsEmailNotAlreadyInUse
  | IsValidPeriod
  | IsUsernameExists

fun runCheck :: "check \<Rightarrow> UserCollection \<Rightarrow> Http \<Rightarrow> Http" where
  "runCheck IsCurrentSessionUserExists db h = isCurrentSessionUserExists db h"
| "runCheck IsUserLoggedIn db h = isUserLoggedIn h"
| "runCheck IsUserLoggedOut db h = isUserLoggedOut h"
| "runCheck IsUsernameNotAlreadyInUse db h = isUsernameNotAlreadyInUse db h"
| "runCheck IsAccountExists db h = isAccountExists db h"
| "runCheck IsValidUsername db h = isValidUsername h"
| "runCheck IsValidPassword db h = isValidPassword h"
| "runCheck IsValidEmail db h = isValidEmail h"
| "runCheck IsEmailNotAlreadyInUse db h = isEmailNotAlreadyInUse db h"
| "runCheck IsValidPeriod db h = isValidPeriod h"
| "runCheck IsUsernameExists db h = isUsernameExists db h"

section \<open>What a check is observed to do\<close>

text \<open>
  The two outcomes of a check that returns, read off the states before and after it: it
  called \<^verbatim>\<open>next()\<close> once and left request and response as they were, or it did not call
  \<^verbatim>\<open>next()\<close> and sent one response with the given status code and body. In both no
  exception left the check.
\<close>

definition callsThrough :: "Http \<Rightarrow> Http \<Rightarrow> bool" where
  "callsThrough h h' \<longleftrightarrow>
     nextCalls h' = nextCalls h + 1 \<and> res h' = res h \<and> req h' = req h \<and> uncaught h' = uncaught h"

definition rejectsWith :: "nat \<Rightarrow> Json \<Rightarrow> Http \<Rightarrow> Http \<Rightarrow> bool" where
  "rejectsWith code b h h' \<longleftrightarrow>
     nextCalls h' = nextCalls h \<and> sent (res h') = sent (res h) @ [(code, b)]
     \<and> uncaught h' = uncaught h"

text \<open>A body of the shape \<^verbatim>\<open>{ error: { <field>: message } }\<close>.\<close>

fun fieldKeyed :: "string \<Rightarrow> Json \<Rightarrow> bool" where
  "fieldKeyed f (JObject [(k, JObject [(k', JString m)])]) = (k = ''error'' \<and> k' = f)"
| "fieldKeyed f b = False"

text \<open>
  A field whose conversion to a string does not throw: an absent one, a string, and every
  value but an object with a \<^verbatim>\<open>toString\<close> property of its own, or an array that holds one.
\<close>

definition convertible :: "jsvalue option \<Rightarrow> bool" where
  "convertible v = (case v of None \<Rightarrow> True | Some x \<Rightarrow> toString x \<noteq> None)"

section \<open>The spec's email pattern\<close>

text \<open>
  The pattern \<^verbatim>\<open>local@domain.tld\<close> as the spec words it: a local part, \<^verbatim>\<open>@\<close>, one or more
  domain labels each ended by a full stop, and a last part of two to four characters. The
  character classes are those of the source's pattern; the separator is the full stop
  itself, \<^verbatim>\<open>/^[\w-.]+@([\w-]+\.)+[\w-]{2,4}$/\<close>.
\<close>

definition localAtDomainTld :: regex where
  "localAtDomainTld =
     Seq (OneOrMore (Atom (Class [EscW, Lit 0x2D, Lit 0x2E])))
    (Seq (Atom (Lit 0x40))
    (Seq (OneOrMore (Seq (OneOrMore (Atom (Class [EscW, Lit 0x2D]))) (Atom (Lit 0x2E))))
         (Between 2 4 (Atom (Class [EscW, Lit 0x2D])))))"

section \<open>A route's chain of checks\<close>

text \<open>
  Modelled from the spec: the router that runs a route's ordered list of checks belongs to
  the web framework and the route definitions are not among the sources. The spec gives
  the control flow: incoming request, then the ordered middleware checks, then on success
  the route handler, or on failure at any check an immediate error response with no
  handler invoked. A check hands over to the rest of the chain by calling \<^verbatim>\<open>next()\<close>; the
  result tells the final state and whether the handler was reached.
\<close>

fun runChain :: "check list \<Rightarrow> UserCollection \<Rightarrow> Http \<Rightarrow> Http \<times> bool" where
  "runChain [] db h = (h, True)"
| "runChain (c # cs) db h =
     (let h' = runCheck c db h in
      if nextCalls h < nextCalls h' then runChain cs db h' else (h', False))"

definition reachesHandler :: "check list \<Rightarrow> UserCollection \<Rightarrow> Http \<Rightarrow> bool" where
  "reachesHandler cs db h = snd (runChain cs db h)"

section \<open>Sample data\<close>

text \<open>
  Modelled from the spec: \<^verbatim>\<open>../user/collection\<close> is not among the sources. The spec
  describes a collection as a set of persisted users queried by exact-match filters;
  \<open>collectionOf us\<close> is such a collection holding the users \<open>us\<close>, whose lookups always
  resolve. \<open>unreachable\<close> is a collection whose store cannot be reached: every lookup
  rejects.
\<close>

definition collectionOf :: "User list \<Rightarrow> UserCollection" where
  "collectionOf us =
     \<lparr>findOneByUserId = (\<lambda>i. Resolved (find (\<lambda>u. userIdString u = i) us)),
      findOneByEmailAndPassword =
        (\<lambda>e p. Resolved (find (\<lambda>u. Str (userEmail u) = e \<and> Str (userPassword u) = p) us)),
      findOneByUsername = (\<lambda>n. Resolved (find (\<lambda>u. Str (userUsername u) = n) us)),
      findOneByEmail = (\<lambda>e. Resolved (find (\<lambda>u. Str (userEmail u) = e) us))\<rparr>"

definition unreachable :: UserCollection where
  "unreachable =
     \<lparr>findOneByUserId = (\<lambda>i. Rejected),
      findOneByEmailAndPassword = (\<lambda>e p. Rejected),
      findOneByUsername = (\<lambda>n. Rejected),
      findOneByEmail = (\<lambda>e. Rejected)\<rparr>"

definition bob :: User where
  "bob = \<lparr>userIdString = utf16 ''b0b'', userUsername = utf16 ''bob'',
          userEmail = utf16 ''bob@b.com'', userPassword = utf16 ''hunter2''\<rparr>"

definition noBody :: Body where
  "noBody = \<lparr>username = None, email = None, password = None, notifPeriod = None\<rparr>"

definition noQuery :: Query where
  "noQuery = \<lparr>queryUsername = None, queryAuthor = None\<rparr>"

definition incoming :: "jsstring option \<Rightarrow> Body \<Rightarrow> Query \<Rightarrow> Http" where
  "incoming uid b q =
     \<lparr>req = \<lparr>session = \<lparr>userId = uid\<rparr>, body = b, query = q\<rparr>,
      res = \<lparr>statusCode = 200, sent = []\<rparr>,
      nextCalls = 0,
      uncaught = []\<rparr>"

section \<open>The matcher decides the language of a regular expression\<close>

lemma acceptsEmpty_lang: "acceptsEmpty r \<longleftrightarrow> [] \<in> lang r"
  by (induction r) (auto intro: star.intros)

lemma lang_SeqI: "u \<in> lang r \<Longrightarrow> v \<in> lang s \<Longrightarrow> u @ v \<in> lang (Seq r s)"
  by auto

lemma star_cons_split:
  assumes "w \<in> star L" and "w = c # s"
  shows "\<exists>u v. s = u @ v \<and> c # u \<in> L \<and> v \<in> star L"
  using assms
proof (induction arbitrary: s rule: star.induct)
  case star_nil
  then show ?case by simp
next
  case (star_app u v)
  show ?case
  proof (cases u)
    case Nil
    with star_app show ?thesis by simp
  next
    case (Cons a u')
    with star_app.prems have "a = c" and "s = u' @ v" by simp_all
    with Cons star_app.hyps show ?thesis by blast
  qed
qed

lemma star_cons_iff:
  "c # s \<in> star L \<longleftrightarrow> (\<exists>u v. s = u @ v \<and> c # u \<in> L \<and> v \<in> star L)"
proof
  assume "c # s \<in> star L"
  then show "\<exists>u v. s = u @ v \<and> c # u \<in> L \<and> v \<in> star L"
    by (rule star_cons_split) simp
next
  assume "\<exists>u v. s = u @ v \<and> c # u \<in> L \<and> v \<in> star L"
  then obtain u v where "s = u @ v" "c # u \<in> L" "v \<in> star L" by blast
  then show "c # s \<in> star L"
    using star_app [of "c # u" L v] by simp
qed

lemma lang_residual: "s \<in> lang (residual c r) \<longleftrightarrow> c # s \<in> lang r"
proof (induction r arbitrary: s)
  case (Seq r1 r2)
  show ?case
  proof
    assume "s \<in> lang (residual c (Seq r1 r2))"
    then consider u v where "s = u @ v" "u \<in> lang (residual c r1)" "v \<in> lang r2"
      | "acceptsEmpty r1" "s \<in> lang (residual c r2)"
      by (auto split: if_splits)
    then show "c # s \<in> lang (Seq r1 r2)"
    proof cases
      case 1
      then have "c # u \<in> lang r1" using Seq.IH(1) by simp
      with 1 have "(c # u) @ v \<in> lang (Seq r1 r2)" by (intro lang_SeqI)
      with 1 show ?thesis by simp
    next
      case 2
      then have "[] \<in> lang r1" "c # s \<in> lang r2"
        using Seq.IH(2) by (simp_all add: acceptsEmpty_lang)
      then have "[] @ (c # s) \<in> lang (Seq r1 r2)" by (rule lang_SeqI)
      then show ?thesis by simp
    qed
  next
    assume "c # s \<in> lang (Seq r1 r2)"
    then obtain u v where uv: "c # s = u @ v" "u \<in> lang r1" "v \<in> lang r2" by auto
    show "s \<in> lang (residual c (Seq r1 r2))"
    proof (cases u)
      case Nil
      with uv have "acceptsEmpty r1" "s \<in> lang (residual c r2)"
        using Seq.IH(2) by (simp_all add: acceptsEmpty_lang)
      then show ?thesis by simp
    next
      case (Cons a u')
      with uv have "a = c" "s = u' @ v" by simp_all
      with Cons uv have "u' \<in> lang (residual c r1)" using Seq.IH(1) by simp
      with \<open>s = u' @ v\<close> uv(3) show ?thesis by auto
    qed
  qed
next
  case (Star r)
  show ?case by (auto simp: star_cons_iff Star.IH)
qed auto

lemma test_lang: "test r s \<longleftrightarrow> s \<in> lang r"
  by (induction s arbitrary: r) (simp_all add: acceptsEmpty_lang lang_residual)

lemma star_all:
  "s \<in> star {[c] |c. P c} \<longleftrightarrow> (\<forall>c \<in> set s. P c)"
proof
  assume "s \<in> star {[c] |c. P c}"
  then show "\<forall>c \<in> set s. P c" by (induction rule: star.induct) auto
next
  assume "\<forall>c \<in> set s. P c"
  then show "s \<in> star {[c] |c. P c}"
  proof (induction s)
    case Nil
    show ?case by (rule star_nil)
  next
    case (Cons a s)
    then have "[a] \<in> {[c] |c. P c}" "s \<in> star {[c] |c. P c}" by simp_all
    then have "[a] @ s \<in> star {[c] |c. P c}" by (rule star_app)
    then show ?case by simp
  qed
qed

lemma test_OneOrMore_Atom:
  "test (OneOrMore (Atom a)) s \<longleftrightarrow> s \<noteq> [] \<and> (\<forall>c \<in> set s. atomMatches a c)"
proof (cases s)
  case Nil
  then show ?thesis by (simp add: OneOrMore_def)
next
  case (Cons c cs)
  have "c # cs \<in> lang (OneOrMore (Atom a)) \<longleftrightarrow> cs \<in> lang (residual c (OneOrMore (Atom a)))"
    by (simp only: lang_residual)
  also have "\<dots> \<longleftrightarrow> atomMatches a c \<and> cs \<in> star {[c] |c. atomMatches a c}"
    by (simp add: OneOrMore_def)
  finally have "c # cs \<in> lang (OneOrMore (Atom a)) \<longleftrightarrow> atomMatches a c \<and> cs \<in> star {[c] |c. atomMatches a c}" .
  with Cons show ?thesis by (simp add: test_lang star_all)
qed

lemma test_usernameRegex:
  "test usernameRegex s \<longleftrightarrow> s \<noteq> [] \<and> (\<forall>c \<in> set s. isWordChar c)"
  by (simp add: usernameRegex_def test_OneOrMore_Atom)

lemma test_passwordRegex:
  "test passwordRegex s \<longleftrightarrow> s \<noteq> [] \<and> (\<forall>c \<in> set s. \<not> isWhiteSpace c \<and> \<not> isLineTerminator c)"
  by (simp add: passwordRegex_def test_OneOrMore_Atom)


text \<open>
  The source's email pattern accepts every string of \<open>localAtDomainTld\<close>: the wildcard
  stands where the full stop should.
\<close>

lemma star_mono: "A \<subseteq> B \<Longrightarrow> star A \<subseteq> star B"
proof
  fix w assume "A \<subseteq> B" and "w \<in> star A"
  from this(2) this(1) show "w \<in> star B"
    by (induction rule: star.induct) (auto intro: star.intros)
qed

lemma lang_Seq_mono:
  "lang r \<subseteq> lang r' \<Longrightarrow> lang s \<subseteq> lang s' \<Longrightarrow> lang (Seq r s) \<subseteq> lang (Seq r' s')"
  by auto

lemma lang_OneOrMore_mono: "lang r \<subseteq> lang r' \<Longrightarrow> lang (OneOrMore r) \<subseteq> lang (OneOrMore r')"
  unfolding OneOrMore_def by (intro lang_Seq_mono) (simp_all add: star_mono)

lemma lang_full_stop_Dot: "lang (Atom (Lit 0x2E)) \<subseteq> lang (Atom Dot)"
  by (auto simp add: isLineTerminator_def)

lemma localAtDomainTld_emailRegex: "test localAtDomainTld s \<Longrightarrow> test emailRegex s"
proof -
  have "lang localAtDomainTld \<subseteq> lang emailRegex"
    unfolding localAtDomainTld_def emailRegex_def
    by (intro lang_Seq_mono lang_OneOrMore_mono lang_full_stop_Dot subset_refl)
  then show "test localAtDomainTld s \<Longrightarrow> test emailRegex s"
    by (auto simp add: test_lang)
qed

section \<open>Properties of the checks\<close>

lemmas ops = callNext_def status_def json_def setSessionUserId_def throw_def

lemmas checks = isCurrentSessionUserExists_def isValidUsername_def isValidEmail_def
  isValidPassword_def isValidPeriod_def isAccountExists_def isUsernameNotAlreadyInUse_def
  isUserLoggedIn_def isUserLoggedOut_def isEmailNotAlreadyInUse_def isUsernameExists_def

lemmas obs = callsThrough_def rejectsWith_def

lemmas samples = collectionOf_def unreachable_def bob_def noBody_def noQuery_def incoming_def

lemma utf16_eq_Nil [simp]: "utf16 s = [] \<longleftrightarrow> s = []"
  by (simp add: utf16_def)




text \<open>The patterns on the strings used below.\<close>

lemma test_email_a_b_com: "test emailRegex (utf16 ''a@b.com'')"
  by code_simp

lemma test_email_nope: "\<not> test emailRegex (utf16 ''nope'')"
  by code_simp

lemma test_email_a_bcom: "test emailRegex (utf16 ''a@bcom'')"
  by code_simp

lemma test_local_a_bcom: "\<not> test localAtDomainTld (utf16 ''a@bcom'')"
  by code_simp

lemma test_local_a_b_com: "test localAtDomainTld (utf16 ''a@b.com'')"
  by code_simp

lemma test_local_empty: "\<not> test localAtDomainTld []"
  by code_simp

lemma test_username_alice_92: "test usernameRegex (utf16 ''alice_92'')"
  by code_simp

lemma test_username_empty: "\<not> test usernameRegex []"
  by code_simp

lemma test_username_space: "\<not> test usernameRegex (utf16 ''al ice'')"
  by code_simp

lemma test_password_space: "\<not> test passwordRegex (utf16 ''pass word'')"
  by code_simp

lemma period_message:
  "utf16 ''Period must be one of the following: '' @ arrayToString validPeriod
   = utf16 ''Period must be one of the following: daily,weekly,monthly,none''"
  by (simp add: validPeriod_def utf16_def)

lemma yearly_not_valid: "utf16 ''yearly'' \<notin> set validPeriod"
  by (simp add: validPeriod_def utf16_def)

lemma missing_email_message:
  "utf16 ''Missing '' @ utf16 ''email'' @ utf16 '' credentials for sign in.''
   = utf16 ''Missing email credentials for sign in.''"
  by (simp add: utf16_def)

lemma missing_password_message:
  "utf16 ''Missing '' @ utf16 ''password'' @ utf16 '' credentials for sign in.''
   = utf16 ''Missing password credentials for sign in.''"
  by (simp add: utf16_def)

lemma collectionOf_resolves:
  "findOneByUserId (collectionOf us) i \<noteq> Rejected"
  "findOneByEmailAndPassword (collectionOf us) e p \<noteq> Rejected"
  "findOneByUsername (collectionOf us) n \<noteq> Rejected"
  "findOneByEmail (collectionOf us) e \<noteq> Rejected"
  by (simp_all add: collectionOf_def)


text \<open>The same happens when an awaited lookup rejects.\<close>

lemma rejected_lookup_throws:
  "nextCalls (runCheck IsUsernameExists unreachable
      (incoming None noBody (noQuery\<lparr>queryUsername := Some (Str (utf16 ''bob''))\<rparr>)))
     = nextCalls (incoming None noBody (noQuery\<lparr>queryUsername := Some (Str (utf16 ''bob''))\<rparr>))
   \<and> sent (res (runCheck IsUsernameExists unreachable
      (incoming None noBody (noQuery\<lparr>queryUsername := Some (Str (utf16 ''bob''))\<rparr>)))) = []"
  by (simp add: isUsernameExists_def truthy_def ops samples)



text \<open>
  C2. When the session carries a user identifier that \<^verbatim>\<open>findOneByUserId\<close> does not resolve,
  \<^verbatim>\<open>isCurrentSessionUserExists\<close> clears the session's identifier and sends status 500 with
  the error \<^verbatim>\<open>userNotFound: "User session was not recognized."\<close>, without calling
  \<^verbatim>\<open>next()\<close>. When the session carries no identifier, or the identifier resolves to a
  user, it calls \<^verbatim>\<open>next()\<close> and changes nothing. An identifier is the string of a document
  id, so it is not empty.
\<close>

theorem session_user_check:
  "(userId (session (req h)) = Some uid \<and> uid \<noteq> [] \<and> findOneByUserId db uid = Resolved None \<longrightarrow>
      rejectsWith 500
        (JObject [(''error'',
           JObject [(''userNotFound'', JString (utf16 ''User session was not recognized.''))])])
        h (isCurrentSessionUserExists db h)
      \<and> userId (session (req (isCurrentSessionUserExists db h))) = None)
   \<and> (userId (session (req h)) = None \<longrightarrow> callsThrough h (isCurrentSessionUserExists db h))
   \<and> (userId (session (req h)) = Some uid \<and> findOneByUserId db uid = Resolved (Some u) \<longrightarrow>
        callsThrough h (isCurrentSessionUserExists db h))"
  by (simp add: isCurrentSessionUserExists_def truthy_def ops obs)

theorem session_user_check_witness:
  "rejectsWith 500
     (JObject [(''error'',
        JObject [(''userNotFound'', JString (utf16 ''User session was not recognized.''))])])
     (incoming (Some (utf16 ''0ff'')) noBody noQuery)
     (isCurrentSessionUserExists (collectionOf [bob]) (incoming (Some (utf16 ''0ff'')) noBody noQuery))
   \<and> userId (session (req (isCurrentSessionUserExists (collectionOf [bob])
         (incoming (Some (utf16 ''0ff'')) noBody noQuery)))) = None
   \<and> callsThrough (incoming None noBody noQuery)
        (isCurrentSessionUserExists (collectionOf [bob]) (incoming None noBody noQuery))
   \<and> callsThrough (incoming (Some (utf16 ''b0b'')) noBody noQuery)
        (isCurrentSessionUserExists (collectionOf [bob]) (incoming (Some (utf16 ''b0b'')) noBody noQuery))"
proof -
  have gone: "findOneByUserId (collectionOf [bob]) (utf16 ''0ff'') = Resolved None"
    by (simp add: samples utf16_def)
  have found: "findOneByUserId (collectionOf [bob]) (utf16 ''b0b'') = Resolved (Some bob)"
    by (simp add: samples)
  show ?thesis
    using session_user_check [of "incoming (Some (utf16 ''0ff'')) noBody noQuery" "utf16 ''0ff''"
        "collectionOf [bob]"]
      session_user_check [of "incoming None noBody noQuery" "[]" "collectionOf [bob]"]
      session_user_check [of "incoming (Some (utf16 ''b0b'')) noBody noQuery" "utf16 ''b0b''"
        "collectionOf [bob]" bob]
      gone found
    by (simp add: incoming_def)
qed

text \<open>
  C3. With no user identifier in the session, \<^verbatim>\<open>isUserLoggedIn\<close> sends status 403 and does
  not call \<^verbatim>\<open>next()\<close>; with a user identifier in the session, \<^verbatim>\<open>isUserLoggedOut\<close> sends
  status 403 and does not call \<^verbatim>\<open>next()\<close>.
\<close>

theorem login_gates:
  "(userId (session (req h)) = None \<longrightarrow>
      rejectsWith 403
        (JObject [(''error'',
           JObject [(''auth'', JString (utf16 ''You must be logged in to complete this action.''))])])
        h (isUserLoggedIn h))
   \<and> (userId (session (req h)) = Some uid \<and> uid \<noteq> [] \<longrightarrow>
        rejectsWith 403 (JObject [(''error'', JString (utf16 ''You are already signed in.''))])
          h (isUserLoggedOut h))"
  by (simp add: isUserLoggedIn_def isUserLoggedOut_def truthy_def ops obs)

theorem login_gates_witness:
  "rejectsWith 403
     (JObject [(''error'',
        JObject [(''auth'', JString (utf16 ''You must be logged in to complete this action.''))])])
     (incoming None noBody noQuery) (isUserLoggedIn (incoming None noBody noQuery))
   \<and> rejectsWith 403 (JObject [(''error'', JString (utf16 ''You are already signed in.''))])
        (incoming (Some (utf16 ''b0b'')) noBody noQuery)
        (isUserLoggedOut (incoming (Some (utf16 ''b0b'')) noBody noQuery))"
  using login_gates [of "incoming None noBody noQuery" "[]"]
    login_gates [of "incoming (Some (utf16 ''b0b'')) noBody noQuery" "utf16 ''b0b''"]
  by (simp add: incoming_def)

text \<open>
  C4. Over a collection in which no user is stored under the empty username (resp. email):
  for a request carrying a candidate username (resp. email) string in the body, the
  uniqueness check sends status 409 if the lookup finds a user whose id is not the
  session's user id; it calls through if the lookup finds nobody, if it finds the session's
  own user, or if the field is absent. So a registration with the taken username "bob"
  gets 409, and bob re-submitting "bob" passes.
\<close>

theorem uniqueness_checks:
  assumes "\<And>w. findOneByUsername db (Str []) \<noteq> Resolved (Some w)"
    and "\<And>w. findOneByEmail db (Str []) \<noteq> Resolved (Some w)"
  shows
  "(username (body (req h)) = Some (Str n) \<and> findOneByUsername db (Str n) = Resolved (Some u)
      \<and> userId (session (req h)) \<noteq> Some (userIdString u) \<longrightarrow>
      rejectsWith 409
        (JObject [(''error'',
           JObject [(''username'', JString (utf16 ''An account with this username already exists.''))])])
        h (isUsernameNotAlreadyInUse db h))
   \<and> (username (body (req h)) = Some (Str n) \<and> findOneByUsername db (Str n) = Resolved None \<longrightarrow>
        callsThrough h (isUsernameNotAlreadyInUse db h))
   \<and> (username (body (req h)) = Some (Str n) \<and> findOneByUsername db (Str n) = Resolved (Some u)
        \<and> userId (session (req h)) = Some (userIdString u) \<longrightarrow>
        callsThrough h (isUsernameNotAlreadyInUse db h))
   \<and> (username (body (req h)) = None \<longrightarrow> callsThrough h (isUsernameNotAlreadyInUse db h))
   \<and> (email (body (req h)) = Some (Str e) \<and> findOneByEmail db (Str e) = Resolved (Some v)
        \<and> userId (session (req h)) \<noteq> Some (userIdString v) \<longrightarrow>
        rejectsWith 409
          (JObject [(''error'',
             JObject [(''username'', JString (utf16 ''An account with this email already exists.''))])])
          h (isEmailNotAlreadyInUse db h))
   \<and> (email (body (req h)) = Some (Str e) \<and> findOneByEmail db (Str e) = Resolved None \<longrightarrow>
        callsThrough h (isEmailNotAlreadyInUse db h))
   \<and> (email (body (req h)) = Some (Str e) \<and> findOneByEmail db (Str e) = Resolved (Some v)
        \<and> userId (session (req h)) = Some (userIdString v) \<longrightarrow>
        callsThrough h (isEmailNotAlreadyInUse db h))
   \<and> (email (body (req h)) = None \<longrightarrow> callsThrough h (isEmailNotAlreadyInUse db h))"
proof -
  have name: "n \<noteq> []" if "findOneByUsername db (Str n) = Resolved (Some u)"
    using that assms(1) [of u] by auto
  have mail: "e \<noteq> []" if "findOneByEmail db (Str e) = Resolved (Some v)"
    using that assms(2) [of v] by auto
  show ?thesis
    using name mail
    by (auto simp add: isUsernameNotAlreadyInUse_def isEmailNotAlreadyInUse_def truthy_def ops obs)
qed

theorem uniqueness_checks_witness:
  "rejectsWith 409
     (JObject [(''error'',
        JObject [(''username'', JString (utf16 ''An account with this username already exists.''))])])
     (incoming None (noBody\<lparr>username := Some (Str (utf16 ''bob''))\<rparr>) noQuery)
     (isUsernameNotAlreadyInUse (collectionOf [bob])
       (incoming None (noBody\<lparr>username := Some (Str (utf16 ''bob''))\<rparr>) noQuery))
   \<and> callsThrough (incoming None (noBody\<lparr>username := Some (Str (utf16 ''carol''))\<rparr>) noQuery)
        (isUsernameNotAlreadyInUse (collectionOf [bob])
          (incoming None (noBody\<lparr>username := Some (Str (utf16 ''carol''))\<rparr>) noQuery))
   \<and> callsThrough (incoming (Some (utf16 ''b0b'')) (noBody\<lparr>username := Some (Str (utf16 ''bob''))\<rparr>) noQuery)
        (isUsernameNotAlreadyInUse (collectionOf [bob])
          (incoming (Some (utf16 ''b0b'')) (noBody\<lparr>username := Some (Str (utf16 ''bob''))\<rparr>) noQuery))
   \<and> callsThrough (incoming None noBody noQuery)
        (isUsernameNotAlreadyInUse (collectionOf [bob]) (incoming None noBody noQuery))
   \<and> rejectsWith 409
        (JObject [(''error'',
           JObject [(''username'', JString (utf16 ''An account with this email already exists.''))])])
        (incoming None (noBody\<lparr>email := Some (Str (utf16 ''bob@b.com''))\<rparr>) noQuery)
        (isEmailNotAlreadyInUse (collectionOf [bob])
          (incoming None (noBody\<lparr>email := Some (Str (utf16 ''bob@b.com''))\<rparr>) noQuery))
   \<and> callsThrough (incoming None (noBody\<lparr>email := Some (Str (utf16 ''carol@c.org''))\<rparr>) noQuery)
        (isEmailNotAlreadyInUse (collectionOf [bob])
          (incoming None (noBody\<lparr>email := Some (Str (utf16 ''carol@c.org''))\<rparr>) noQuery))
   \<and> callsThrough (incoming (Some (utf16 ''b0b'')) (noBody\<lparr>email := Some (Str (utf16 ''bob@b.com''))\<rparr>) noQuery)
        (isEmailNotAlreadyInUse (collectionOf [bob])
          (incoming (Some (utf16 ''b0b'')) (noBody\<lparr>email := Some (Str (utf16 ''bob@b.com''))\<rparr>) noQuery))
   \<and> callsThrough (incoming None noBody noQuery)
        (isEmailNotAlreadyInUse (collectionOf [bob]) (incoming None noBody noQuery))"
proof -
  have byName: "findOneByUsername (collectionOf [bob]) (Str (utf16 ''bob'')) = Resolved (Some bob)"
    "findOneByUsername (collectionOf [bob]) (Str (utf16 ''carol'')) = Resolved None"
    by (simp_all add: collectionOf_def bob_def utf16_def)
  have byEmail: "findOneByEmail (collectionOf [bob]) (Str (utf16 ''bob@b.com'')) = Resolved (Some bob)"
    "findOneByEmail (collectionOf [bob]) (Str (utf16 ''carol@c.org'')) = Resolved None"
    by (simp_all add: collectionOf_def bob_def utf16_def)
  have ident: "userIdString bob = utf16 ''b0b''"
    by (simp add: bob_def)
  have nobody: "\<And>w. findOneByUsername (collectionOf [bob]) (Str []) \<noteq> Resolved (Some w)"
    "\<And>w. findOneByEmail (collectionOf [bob]) (Str []) \<noteq> Resolved (Some w)"
    by (simp_all add: collectionOf_def bob_def)
  note uc = uniqueness_checks [of "collectionOf [bob]", OF nobody]
  note taken = uc
    [where h = "incoming None (noBody\<lparr>username := Some (Str (utf16 ''bob''))\<rparr>) noQuery"
      and n = "utf16 ''bob''" and u = bob]
  note free = uc
    [where h = "incoming None (noBody\<lparr>username := Some (Str (utf16 ''carol''))\<rparr>) noQuery"
      and n = "utf16 ''carol''"]
  note own = uc
    [where h = "incoming (Some (utf16 ''b0b'')) (noBody\<lparr>username := Some (Str (utf16 ''bob''))\<rparr>) noQuery"
      and n = "utf16 ''bob''" and u = bob]
  note absent = uc [where h = "incoming None noBody noQuery"]
  note takenE = uc
    [where h = "incoming None (noBody\<lparr>email := Some (Str (utf16 ''bob@b.com''))\<rparr>) noQuery"
      and e = "utf16 ''bob@b.com''" and v = bob]
  note freeE = uc
    [where h = "incoming None (noBody\<lparr>email := Some (Str (utf16 ''carol@c.org''))\<rparr>) noQuery"
      and e = "utf16 ''carol@c.org''"]
  note ownE = uc
    [where h = "incoming (Some (utf16 ''b0b'')) (noBody\<lparr>email := Some (Str (utf16 ''bob@b.com''))\<rparr>) noQuery"
      and e = "utf16 ''bob@b.com''" and v = bob]
  have 1: "rejectsWith 409
     (JObject [(''error'',
        JObject [(''username'', JString (utf16 ''An account with this username already exists.''))])])
     (incoming None (noBody\<lparr>username := Some (Str (utf16 ''bob''))\<rparr>) noQuery)
     (isUsernameNotAlreadyInUse (collectionOf [bob])
       (incoming None (noBody\<lparr>username := Some (Str (utf16 ''bob''))\<rparr>) noQuery))"
    using taken byName by (simp add: incoming_def noBody_def)
  have 2: "callsThrough (incoming None (noBody\<lparr>username := Some (Str (utf16 ''carol''))\<rparr>) noQuery)
        (isUsernameNotAlreadyInUse (collectionOf [bob])
          (incoming None (noBody\<lparr>username := Some (Str (utf16 ''carol''))\<rparr>) noQuery))"
    using free byName by (simp add: incoming_def noBody_def)
  have 3: "callsThrough (incoming (Some (utf16 ''b0b'')) (noBody\<lparr>username := Some (Str (utf16 ''bob''))\<rparr>) noQuery)
        (isUsernameNotAlreadyInUse (collectionOf [bob])
          (incoming (Some (utf16 ''b0b'')) (noBody\<lparr>username := Some (Str (utf16 ''bob''))\<rparr>) noQuery))"
    using own byName ident by (simp add: incoming_def noBody_def)
  have 4: "callsThrough (incoming None noBody noQuery)
        (isUsernameNotAlreadyInUse (collectionOf [bob]) (incoming None noBody noQuery))"
    "callsThrough (incoming None noBody noQuery)
        (isEmailNotAlreadyInUse (collectionOf [bob]) (incoming None noBody noQuery))"
    using absent by (simp_all add: incoming_def noBody_def)
  have 5: "rejectsWith 409
        (JObject [(''error'',
           JObject [(''username'', JString (utf16 ''An account with this email already exists.''))])])
        (incoming None (noBody\<lparr>email := Some (Str (utf16 ''bob@b.com''))\<rparr>) noQuery)
        (isEmailNotAlreadyInUse (collectionOf [bob])
          (incoming None (noBody\<lparr>email := Some (Str (utf16 ''bob@b.com''))\<rparr>) noQuery))"
    using takenE byEmail by (simp add: incoming_def noBody_def)
  have 6: "callsThrough (incoming None (noBody\<lparr>email := Some (Str (utf16 ''carol@c.org''))\<rparr>) noQuery)
        (isEmailNotAlreadyInUse (collectionOf [bob])
          (incoming None (noBody\<lparr>email := Some (Str (utf16 ''carol@c.org''))\<rparr>) noQuery))"
    using freeE byEmail by (simp add: incoming_def noBody_def)
  have 7: "callsThrough (incoming (Some (utf16 ''b0b'')) (noBody\<lparr>email := Some (Str (utf16 ''bob@b.com''))\<rparr>) noQuery)
        (isEmailNotAlreadyInUse (collectionOf [bob])
          (incoming (Some (utf16 ''b0b'')) (noBody\<lparr>email := Some (Str (utf16 ''bob@b.com''))\<rparr>) noQuery))"
    using ownE byEmail ident by (simp add: incoming_def noBody_def)
  from 1 2 3 4 5 6 7 show ?thesis by (intro conjI)
qed

text \<open>
  C5 does not hold of the code: \<^verbatim>\<open>a@bcom\<close> and the empty string are email strings that do
  not match \<^verbatim>\<open>local@domain.tld\<close>, and \<^verbatim>\<open>isValidEmail\<close> calls through on both, the first
  by the unescaped \<^verbatim>\<open>.\<close> of its pattern, the second by its truthiness guard.
\<close>

theorem email_outside_pattern_passes:
  "\<not> test localAtDomainTld (utf16 ''a@bcom'')
   \<and> callsThrough (incoming None (noBody\<lparr>email := Some (Str (utf16 ''a@bcom''))\<rparr>) noQuery)
        (isValidEmail (incoming None (noBody\<lparr>email := Some (Str (utf16 ''a@bcom''))\<rparr>) noQuery))
   \<and> \<not> test localAtDomainTld []
   \<and> callsThrough (incoming None (noBody\<lparr>email := Some (Str [])\<rparr>) noQuery)
        (isValidEmail (incoming None (noBody\<lparr>email := Some (Str [])\<rparr>) noQuery))"
  using test_local_a_bcom test_email_a_bcom test_local_empty
  by (simp add: isValidEmail_def truthy_def ops obs samples)

text \<open>
  What does hold: every string of \<^verbatim>\<open>local@domain.tld\<close> passes, \<^verbatim>\<open>a@b.com\<close> among them, and
  a non-empty string outside the source's pattern, such as one without \<^verbatim>\<open>@\<close>, is rejected
  with status 400.
\<close>

lemma email_in_pattern_passes:
  "email (body (req h)) = Some (Str e) \<Longrightarrow> test localAtDomainTld e \<Longrightarrow> callsThrough h (isValidEmail h)"
  using localAtDomainTld_emailRegex [of e]
  by (auto simp add: isValidEmail_def truthy_def ops obs)

lemma email_a_b_com_passes:
  "email (body (req h)) = Some (Str (utf16 ''a@b.com'')) \<Longrightarrow> callsThrough h (isValidEmail h)"
  using email_in_pattern_passes [of h "utf16 ''a@b.com''"] test_local_a_b_com by simp

lemma email_rejected:
  "email (body (req h)) = Some (Str e) \<Longrightarrow> e \<noteq> [] \<Longrightarrow> \<not> test emailRegex e \<Longrightarrow>
     rejectsWith 400 (JObject [(''error'', JString (utf16 ''Email must be a valid email!''))])
       h (isValidEmail h)"
  by (simp add: isValidEmail_def truthy_def ops obs)

lemma emailRegex_at: "test emailRegex s \<Longrightarrow> 0x40 \<in> set s"
  by (auto simp add: test_lang emailRegex_def)

lemma email_without_at_rejected:
  "email (body (req h)) = Some (Str e) \<Longrightarrow> e \<noteq> [] \<Longrightarrow> 0x40 \<notin> set e \<Longrightarrow>
     rejectsWith 400 (JObject [(''error'', JString (utf16 ''Email must be a valid email!''))])
       h (isValidEmail h)"
  using emailRegex_at [of e] by (auto intro: email_rejected)

text \<open>
  C6, as stated, fails for three of the four validators: the error that \<^verbatim>\<open>isValidEmail\<close>
  sends is a plain string, not an object keyed by the field name.
\<close>

theorem email_error_not_keyed:
  "rejectsWith 400 (JObject [(''error'', JString (utf16 ''Email must be a valid email!''))])
     (incoming None (noBody\<lparr>email := Some (Str (utf16 ''nope''))\<rparr>) noQuery)
     (isValidEmail (incoming None (noBody\<lparr>email := Some (Str (utf16 ''nope''))\<rparr>) noQuery))
   \<and> \<not> fieldKeyed ''email'' (JObject [(''error'', JString (utf16 ''Email must be a valid email!''))])"
  using test_email_nope by (simp add: isValidEmail_def truthy_def ops obs samples)

lemma isValidUsername_absent:
  "username (body (req h)) = None \<Longrightarrow> callsThrough h (isValidUsername h)"
  by (simp add: isValidUsername_def truthy_def ops obs)

lemma isValidUsername_fails:
  "convertible (username (body (req h))) \<and> nextCalls (isValidUsername h) = nextCalls h \<Longrightarrow>
     rejectsWith 400
       (JObject [(''error'',
          JObject [(''username'', JString (utf16 ''Username must be a nonempty alphanumeric string.''))])])
       h (isValidUsername h)"
  by (auto simp add: isValidUsername_def convertible_def truthy_def ops obs period_message
      split: option.splits if_splits)

lemma isValidEmail_absent:
  "email (body (req h)) = None \<Longrightarrow> callsThrough h (isValidEmail h)"
  by (simp add: isValidEmail_def truthy_def ops obs)

lemma isValidEmail_fails:
  "convertible (email (body (req h))) \<and> nextCalls (isValidEmail h) = nextCalls h \<Longrightarrow>
     rejectsWith 400
       (JObject [(''error'', JString (utf16 ''Email must be a valid email!''))])
       h (isValidEmail h)"
  by (auto simp add: isValidEmail_def convertible_def truthy_def ops obs period_message
      split: option.splits if_splits)

lemma isValidPassword_absent:
  "password (body (req h)) = None \<Longrightarrow> callsThrough h (isValidPassword h)"
  by (simp add: isValidPassword_def truthy_def ops obs)

lemma isValidPassword_fails:
  "convertible (password (body (req h))) \<and> nextCalls (isValidPassword h) = nextCalls h \<Longrightarrow>
     rejectsWith 400
       (JObject [(''error'', JString (utf16 ''Password must be a nonempty string.''))])
       h (isValidPassword h)"
  by (auto simp add: isValidPassword_def convertible_def truthy_def ops obs period_message
      split: option.splits if_splits)

lemma isValidPeriod_absent:
  "notifPeriod (body (req h)) = None \<Longrightarrow> callsThrough h (isValidPeriod h)"
  by (simp add: isValidPeriod_def truthy_def ops obs)

lemma isValidPeriod_fails:
  "convertible (notifPeriod (body (req h))) \<and> nextCalls (isValidPeriod h) = nextCalls h \<Longrightarrow>
     rejectsWith 400
       (JObject [(''error'',
          JString (utf16 ''Period must be one of the following: daily,weekly,monthly,none''))])
       h (isValidPeriod h)"
  by (auto simp add: isValidPeriod_def convertible_def truthy_def ops obs period_message
      split: option.splits if_splits)

text \<open>
  C6, amended. Each of the four format validators calls through when its field is absent
  from the body, and whenever it does not call through (the field being one that can be
  converted to a string) it sends status 400 with an error: an object keyed by
  \<^verbatim>\<open>username\<close> for \<^verbatim>\<open>isValidUsername\<close>, and a plain message string for \<^verbatim>\<open>isValidEmail\<close>,
  \<^verbatim>\<open>isValidPassword\<close> and \<^verbatim>\<open>isValidPeriod\<close>.
\<close>

theorem format_validators:
  "(username (body (req h)) = None \<longrightarrow> callsThrough h (isValidUsername h))
   \<and> (email (body (req h)) = None \<longrightarrow> callsThrough h (isValidEmail h))
   \<and> (password (body (req h)) = None \<longrightarrow> callsThrough h (isValidPassword h))
   \<and> (notifPeriod (body (req h)) = None \<longrightarrow> callsThrough h (isValidPeriod h))
   \<and> (convertible (username (body (req h))) \<and> nextCalls (isValidUsername h) = nextCalls h \<longrightarrow>
        rejectsWith 400
          (JObject [(''error'',
             JObject [(''username'', JString (utf16 ''Username must be a nonempty alphanumeric string.''))])])
          h (isValidUsername h))
   \<and> (convertible (email (body (req h))) \<and> nextCalls (isValidEmail h) = nextCalls h \<longrightarrow>
        rejectsWith 400 (JObject [(''error'', JString (utf16 ''Email must be a valid email!''))])
          h (isValidEmail h))
   \<and> (convertible (password (body (req h))) \<and> nextCalls (isValidPassword h) = nextCalls h \<longrightarrow>
        rejectsWith 400 (JObject [(''error'', JString (utf16 ''Password must be a nonempty string.''))])
          h (isValidPassword h))
   \<and> (convertible (notifPeriod (body (req h))) \<and> nextCalls (isValidPeriod h) = nextCalls h \<longrightarrow>
        rejectsWith 400
          (JObject [(''error'',
             JString (utf16 ''Period must be one of the following: daily,weekly,monthly,none''))])
          h (isValidPeriod h))
   \<and> fieldKeyed ''username''
        (JObject [(''error'',
           JObject [(''username'', JString (utf16 ''Username must be a nonempty alphanumeric string.''))])])"
  by (intro conjI impI isValidUsername_absent isValidEmail_absent isValidPassword_absent
      isValidPeriod_absent isValidUsername_fails isValidEmail_fails isValidPassword_fails
      isValidPeriod_fails) simp_all

theorem format_validators_witness:
  "callsThrough (incoming None noBody noQuery) (isValidUsername (incoming None noBody noQuery))
   \<and> callsThrough (incoming None noBody noQuery) (isValidEmail (incoming None noBody noQuery))
   \<and> callsThrough (incoming None noBody noQuery) (isValidPassword (incoming None noBody noQuery))
   \<and> callsThrough (incoming None noBody noQuery) (isValidPeriod (incoming None noBody noQuery))
   \<and> rejectsWith 400
        (JObject [(''error'',
           JObject [(''username'', JString (utf16 ''Username must be a nonempty alphanumeric string.''))])])
        (incoming None (noBody\<lparr>username := Some (Str (utf16 ''al ice''))\<rparr>) noQuery)
        (isValidUsername (incoming None (noBody\<lparr>username := Some (Str (utf16 ''al ice''))\<rparr>) noQuery))
   \<and> rejectsWith 400 (JObject [(''error'', JString (utf16 ''Email must be a valid email!''))])
        (incoming None (noBody\<lparr>email := Some (Str (utf16 ''nope''))\<rparr>) noQuery)
        (isValidEmail (incoming None (noBody\<lparr>email := Some (Str (utf16 ''nope''))\<rparr>) noQuery))
   \<and> rejectsWith 400 (JObject [(''error'', JString (utf16 ''Password must be a nonempty string.''))])
        (incoming None (noBody\<lparr>password := Some (Str (utf16 ''pass word''))\<rparr>) noQuery)
        (isValidPassword (incoming None (noBody\<lparr>password := Some (Str (utf16 ''pass word''))\<rparr>) noQuery))
   \<and> rejectsWith 400
        (JObject [(''error'',
           JString (utf16 ''Period must be one of the following: daily,weekly,monthly,none''))])
        (incoming None (noBody\<lparr>notifPeriod := Some (Str (utf16 ''yearly''))\<rparr>) noQuery)
        (isValidPeriod (incoming None (noBody\<lparr>notifPeriod := Some (Str (utf16 ''yearly''))\<rparr>) noQuery))"
proof -
  have u: "convertible (username (body (req (incoming None (noBody\<lparr>username := Some (Str (utf16 ''al ice''))\<rparr>) noQuery))))
    \<and> nextCalls (isValidUsername (incoming None (noBody\<lparr>username := Some (Str (utf16 ''al ice''))\<rparr>) noQuery))
      = nextCalls (incoming None (noBody\<lparr>username := Some (Str (utf16 ''al ice''))\<rparr>) noQuery)"
    using test_username_space by (simp add: isValidUsername_def convertible_def truthy_def ops samples)
  have e: "convertible (email (body (req (incoming None (noBody\<lparr>email := Some (Str (utf16 ''nope''))\<rparr>) noQuery))))
    \<and> nextCalls (isValidEmail (incoming None (noBody\<lparr>email := Some (Str (utf16 ''nope''))\<rparr>) noQuery))
      = nextCalls (incoming None (noBody\<lparr>email := Some (Str (utf16 ''nope''))\<rparr>) noQuery)"
    using test_email_nope by (simp add: isValidEmail_def convertible_def truthy_def ops samples)
  have p: "convertible (password (body (req (incoming None (noBody\<lparr>password := Some (Str (utf16 ''pass word''))\<rparr>) noQuery))))
    \<and> nextCalls (isValidPassword (incoming None (noBody\<lparr>password := Some (Str (utf16 ''pass word''))\<rparr>) noQuery))
      = nextCalls (incoming None (noBody\<lparr>password := Some (Str (utf16 ''pass word''))\<rparr>) noQuery)"
    using test_password_space by (simp add: isValidPassword_def convertible_def truthy_def ops samples)
  have n: "convertible (notifPeriod (body (req (incoming None (noBody\<lparr>notifPeriod := Some (Str (utf16 ''yearly''))\<rparr>) noQuery))))
    \<and> nextCalls (isValidPeriod (incoming None (noBody\<lparr>notifPeriod := Some (Str (utf16 ''yearly''))\<rparr>) noQuery))
      = nextCalls (incoming None (noBody\<lparr>notifPeriod := Some (Str (utf16 ''yearly''))\<rparr>) noQuery)"
    using yearly_not_valid by (simp add: isValidPeriod_def convertible_def truthy_def ops samples)
  have absent: "username (body (req (incoming None noBody noQuery))) = None"
    "email (body (req (incoming None noBody noQuery))) = None"
    "password (body (req (incoming None noBody noQuery))) = None"
    "notifPeriod (body (req (incoming None noBody noQuery))) = None"
    by (simp_all add: samples)
  note fv = format_validators [of "incoming None noBody noQuery"]
  note fu = format_validators [of "incoming None (noBody\<lparr>username := Some (Str (utf16 ''al ice''))\<rparr>) noQuery"]
  note fe = format_validators [of "incoming None (noBody\<lparr>email := Some (Str (utf16 ''nope''))\<rparr>) noQuery"]
  note fp = format_validators [of "incoming None (noBody\<lparr>password := Some (Str (utf16 ''pass word''))\<rparr>) noQuery"]
  note fn = format_validators [of "incoming None (noBody\<lparr>notifPeriod := Some (Str (utf16 ''yearly''))\<rparr>) noQuery"]
  from fv absent have 1: "callsThrough (incoming None noBody noQuery) (isValidUsername (incoming None noBody noQuery))"
    "callsThrough (incoming None noBody noQuery) (isValidEmail (incoming None noBody noQuery))"
    "callsThrough (incoming None noBody noQuery) (isValidPassword (incoming None noBody noQuery))"
    "callsThrough (incoming None noBody noQuery) (isValidPeriod (incoming None noBody noQuery))"
    by simp_all
  from fu u fe e fp p fn n 1 show ?thesis
    by simp
qed

text \<open>
  C7, as stated, fails where a credential is present but empty: with an empty email and a
  password in the body, no lookup is made and no 401 is sent; \<^verbatim>\<open>isAccountExists\<close> sends
  status 400 and names the email as missing.
\<close>

theorem empty_email_credential_is_missing:
  "email (body (req (incoming None (noBody\<lparr>email := Some (Str []), password := Some (Str (utf16 ''hunter2''))\<rparr>) noQuery)))
     = Some (Str [])
   \<and> password (body (req (incoming None (noBody\<lparr>email := Some (Str []), password := Some (Str (utf16 ''hunter2''))\<rparr>) noQuery)))
     = Some (Str (utf16 ''hunter2''))
   \<and> findOneByEmailAndPassword (collectionOf [bob]) (Str []) (Str (utf16 ''hunter2'')) = Resolved None
   \<and> rejectsWith 400 (JObject [(''error'', JString (utf16 ''Missing email credentials for sign in.''))])
        (incoming None (noBody\<lparr>email := Some (Str []), password := Some (Str (utf16 ''hunter2''))\<rparr>) noQuery)
        (isAccountExists (collectionOf [bob])
          (incoming None (noBody\<lparr>email := Some (Str []), password := Some (Str (utf16 ''hunter2''))\<rparr>) noQuery))"
  by (simp add: isAccountExists_def truthy_def ops obs samples missing_email_message)

text \<open>
  C7, amended. \<^verbatim>\<open>isAccountExists\<close> sends status 400 naming the missing credential when
  the email or the password is absent from the body or is the empty string (the email,
  when both are). When both are non-empty strings it looks the pair up and calls through
  exactly when a user is found; otherwise it sends status 401 with
  \<^verbatim>\<open>"Invalid user login credentials provided."\<close>.
\<close>

theorem account_check_nonempty:
  "(email (body (req h)) = None \<or> email (body (req h)) = Some (Str []) \<longrightarrow>
      rejectsWith 400 (JObject [(''error'', JString (utf16 ''Missing email credentials for sign in.''))])
        h (isAccountExists db h))
   \<and> (email (body (req h)) = Some (Str e) \<and> e \<noteq> []
        \<and> (password (body (req h)) = None \<or> password (body (req h)) = Some (Str [])) \<longrightarrow>
        rejectsWith 400 (JObject [(''error'', JString (utf16 ''Missing password credentials for sign in.''))])
          h (isAccountExists db h))
   \<and> (email (body (req h)) = Some (Str e) \<and> e \<noteq> [] \<and> password (body (req h)) = Some (Str p) \<and> p \<noteq> []
        \<and> findOneByEmailAndPassword db (Str e) (Str p) = Resolved (Some u) \<longrightarrow>
        callsThrough h (isAccountExists db h))
   \<and> (email (body (req h)) = Some (Str e) \<and> e \<noteq> [] \<and> password (body (req h)) = Some (Str p) \<and> p \<noteq> []
        \<and> findOneByEmailAndPassword db (Str e) (Str p) = Resolved None \<longrightarrow>
        rejectsWith 401 (JObject [(''error'', JString (utf16 ''Invalid user login credentials provided.''))])
          h (isAccountExists db h))"
proof -
  have 1: "email (body (req h)) = None \<or> email (body (req h)) = Some (Str []) \<Longrightarrow>
      rejectsWith 400 (JObject [(''error'', JString (utf16 ''Missing email credentials for sign in.''))])
        h (isAccountExists db h)"
    by (auto simp add: isAccountExists_def truthy_def ops obs Let_def missing_email_message)
  have 2: "email (body (req h)) = Some (Str e) \<and> e \<noteq> []
        \<and> (password (body (req h)) = None \<or> password (body (req h)) = Some (Str [])) \<Longrightarrow>
        rejectsWith 400 (JObject [(''error'', JString (utf16 ''Missing password credentials for sign in.''))])
          h (isAccountExists db h)"
    by (auto simp add: isAccountExists_def truthy_def ops obs Let_def missing_password_message)
  have 3: "email (body (req h)) = Some (Str e) \<and> e \<noteq> [] \<and> password (body (req h)) = Some (Str p) \<and> p \<noteq> []
        \<and> findOneByEmailAndPassword db (Str e) (Str p) = Resolved (Some u) \<Longrightarrow>
        callsThrough h (isAccountExists db h)"
    by (simp add: isAccountExists_def truthy_def ops obs Let_def)
  have 4: "email (body (req h)) = Some (Str e) \<and> e \<noteq> [] \<and> password (body (req h)) = Some (Str p) \<and> p \<noteq> []
        \<and> findOneByEmailAndPassword db (Str e) (Str p) = Resolved None \<Longrightarrow>
        rejectsWith 401 (JObject [(''error'', JString (utf16 ''Invalid user login credentials provided.''))])
          h (isAccountExists db h)"
    by (simp add: isAccountExists_def truthy_def ops obs Let_def)
  from 1 2 3 4 show ?thesis by (intro conjI impI)
qed

theorem account_check_nonempty_witness:
  "rejectsWith 400 (JObject [(''error'', JString (utf16 ''Missing email credentials for sign in.''))])
     (incoming None noBody noQuery) (isAccountExists (collectionOf [bob]) (incoming None noBody noQuery))
   \<and> rejectsWith 400 (JObject [(''error'', JString (utf16 ''Missing password credentials for sign in.''))])
        (incoming None (noBody\<lparr>email := Some (Str (utf16 ''bob@b.com''))\<rparr>) noQuery)
        (isAccountExists (collectionOf [bob])
          (incoming None (noBody\<lparr>email := Some (Str (utf16 ''bob@b.com''))\<rparr>) noQuery))
   \<and> callsThrough
        (incoming None (noBody\<lparr>email := Some (Str (utf16 ''bob@b.com'')), password := Some (Str (utf16 ''hunter2''))\<rparr>) noQuery)
        (isAccountExists (collectionOf [bob])
          (incoming None (noBody\<lparr>email := Some (Str (utf16 ''bob@b.com'')), password := Some (Str (utf16 ''hunter2''))\<rparr>) noQuery))
   \<and> rejectsWith 401 (JObject [(''error'', JString (utf16 ''Invalid user login credentials provided.''))])
        (incoming None (noBody\<lparr>email := Some (Str (utf16 ''bob@b.com'')), password := Some (Str (utf16 ''wrong''))\<rparr>) noQuery)
        (isAccountExists (collectionOf [bob])
          (incoming None (noBody\<lparr>email := Some (Str (utf16 ''bob@b.com'')), password := Some (Str (utf16 ''wrong''))\<rparr>) noQuery))"
proof -
  have right: "findOneByEmailAndPassword (collectionOf [bob]) (Str (utf16 ''bob@b.com'')) (Str (utf16 ''hunter2'')) = Resolved (Some bob)"
    by (simp add: collectionOf_def bob_def)
  have wrong: "findOneByEmailAndPassword (collectionOf [bob]) (Str (utf16 ''bob@b.com'')) (Str (utf16 ''wrong'')) = Resolved None"
    by (simp add: collectionOf_def bob_def utf16_def)
  have 1: "rejectsWith 400 (JObject [(''error'', JString (utf16 ''Missing email credentials for sign in.''))])
     (incoming None noBody noQuery) (isAccountExists (collectionOf [bob]) (incoming None noBody noQuery))"
    using account_check_nonempty [of "incoming None noBody noQuery" "collectionOf [bob]"]
    by (simp add: incoming_def noBody_def)
  have 2: "rejectsWith 400 (JObject [(''error'', JString (utf16 ''Missing password credentials for sign in.''))])
        (incoming None (noBody\<lparr>email := Some (Str (utf16 ''bob@b.com''))\<rparr>) noQuery)
        (isAccountExists (collectionOf [bob])
          (incoming None (noBody\<lparr>email := Some (Str (utf16 ''bob@b.com''))\<rparr>) noQuery))"
    using account_check_nonempty
      [of "incoming None (noBody\<lparr>email := Some (Str (utf16 ''bob@b.com''))\<rparr>) noQuery"
        "collectionOf [bob]" "utf16 ''bob@b.com''"]
    by (simp add: incoming_def noBody_def)
  have 3: "callsThrough
        (incoming None (noBody\<lparr>email := Some (Str (utf16 ''bob@b.com'')), password := Some (Str (utf16 ''hunter2''))\<rparr>) noQuery)
        (isAccountExists (collectionOf [bob])
          (incoming None (noBody\<lparr>email := Some (Str (utf16 ''bob@b.com'')), password := Some (Str (utf16 ''hunter2''))\<rparr>) noQuery))"
    using account_check_nonempty
      [of "incoming None (noBody\<lparr>email := Some (Str (utf16 ''bob@b.com'')), password := Some (Str (utf16 ''hunter2''))\<rparr>) noQuery"
        "collectionOf [bob]" "utf16 ''bob@b.com''" "utf16 ''hunter2''" bob]
      right
    by (simp add: incoming_def noBody_def)
  have 4: "rejectsWith 401 (JObject [(''error'', JString (utf16 ''Invalid user login credentials provided.''))])
        (incoming None (noBody\<lparr>email := Some (Str (utf16 ''bob@b.com'')), password := Some (Str (utf16 ''wrong''))\<rparr>) noQuery)
        (isAccountExists (collectionOf [bob])
          (incoming None (noBody\<lparr>email := Some (Str (utf16 ''bob@b.com'')), password := Some (Str (utf16 ''wrong''))\<rparr>) noQuery))"
    using account_check_nonempty
      [of "incoming None (noBody\<lparr>email := Some (Str (utf16 ''bob@b.com'')), password := Some (Str (utf16 ''wrong''))\<rparr>) noQuery"
        "collectionOf [bob]" "utf16 ''bob@b.com''" "utf16 ''wrong''"]
      wrong
    by (simp add: incoming_def noBody_def)
  from 1 2 3 4 show ?thesis by (intro conjI)
qed

text \<open>
  C8 does not hold of the code: the empty string is a username string present in the body
  that does not match \<^verbatim>\<open>^\w+$\<close>, and \<^verbatim>\<open>isValidUsername\<close> calls through, against its own
  message "Username must be a nonempty alphanumeric string."
\<close>

theorem empty_username_passes:
  "username (body (req (incoming None (noBody\<lparr>username := Some (Str [])\<rparr>) noQuery))) = Some (Str [])
   \<and> \<not> test usernameRegex []
   \<and> callsThrough (incoming None (noBody\<lparr>username := Some (Str [])\<rparr>) noQuery)
        (isValidUsername (incoming None (noBody\<lparr>username := Some (Str [])\<rparr>) noQuery))"
  using test_username_empty by (simp add: isValidUsername_def truthy_def ops obs samples)

text \<open>
  What does hold: a non-empty username string that does not match is rejected with status
  400 and an error keyed by \<^verbatim>\<open>username\<close>, and every username that matches passes,
  \<^verbatim>\<open>alice_92\<close> among them.
\<close>

lemma username_rejected:
  "username (body (req h)) = Some (Str n) \<Longrightarrow> n \<noteq> [] \<Longrightarrow> \<not> test usernameRegex n \<Longrightarrow>
     rejectsWith 400
       (JObject [(''error'',
          JObject [(''username'', JString (utf16 ''Username must be a nonempty alphanumeric string.''))])])
       h (isValidUsername h)"
  by (simp add: isValidUsername_def truthy_def ops obs)

lemma username_in_pattern_passes:
  "username (body (req h)) = Some (Str n) \<Longrightarrow> test usernameRegex n \<Longrightarrow>
     callsThrough h (isValidUsername h)"
  by (auto simp add: isValidUsername_def truthy_def ops obs)

lemma username_alice_92_passes:
  "username (body (req h)) = Some (Str (utf16 ''alice_92'')) \<Longrightarrow> callsThrough h (isValidUsername h)"
  using username_in_pattern_passes [of h "utf16 ''alice_92''"] test_username_alice_92 by simp

text \<open>
  C10. Whenever \<^verbatim>\<open>isEmailNotAlreadyInUse\<close> rejects a request, which it does when a user
  other than the session's owns the submitted email, the body of its 409 response keys the
  message under \<^verbatim>\<open>username\<close>, not under \<^verbatim>\<open>email\<close>.
\<close>

theorem email_conflict_keyed_by_username:
  "(email (body (req h)) = Some (Str e) \<and> e \<noteq> [] \<and> findOneByEmail db (Str e) = Resolved (Some v)
      \<and> userId (session (req h)) \<noteq> Some (userIdString v) \<longrightarrow>
      rejectsWith 409
        (JObject [(''error'',
           JObject [(''username'', JString (utf16 ''An account with this email already exists.''))])])
        h (isEmailNotAlreadyInUse db h))
   \<and> ((\<forall>x. findOneByEmail db x \<noteq> Rejected)
        \<and> nextCalls (isEmailNotAlreadyInUse db h) = nextCalls h \<longrightarrow>
        rejectsWith 409
          (JObject [(''error'',
             JObject [(''username'', JString (utf16 ''An account with this email already exists.''))])])
          h (isEmailNotAlreadyInUse db h))
   \<and> fieldKeyed ''username''
        (JObject [(''error'',
           JObject [(''username'', JString (utf16 ''An account with this email already exists.''))])])
   \<and> \<not> fieldKeyed ''email''
        (JObject [(''error'',
           JObject [(''username'', JString (utf16 ''An account with this email already exists.''))])])"
  by (auto simp add: isEmailNotAlreadyInUse_def truthy_def ops obs Let_def
      split: if_splits promise.splits)

theorem email_conflict_keyed_by_username_witness:
  "rejectsWith 409
     (JObject [(''error'',
        JObject [(''username'', JString (utf16 ''An account with this email already exists.''))])])
     (incoming None (noBody\<lparr>email := Some (Str (utf16 ''bob@b.com''))\<rparr>) noQuery)
     (isEmailNotAlreadyInUse (collectionOf [bob])
       (incoming None (noBody\<lparr>email := Some (Str (utf16 ''bob@b.com''))\<rparr>) noQuery))
   \<and> nextCalls (isEmailNotAlreadyInUse (collectionOf [bob])
        (incoming None (noBody\<lparr>email := Some (Str (utf16 ''bob@b.com''))\<rparr>) noQuery))
      = nextCalls (incoming None (noBody\<lparr>email := Some (Str (utf16 ''bob@b.com''))\<rparr>) noQuery)
   \<and> (\<forall>x. findOneByEmail (collectionOf [bob]) x \<noteq> Rejected)"
proof -
  have owner: "findOneByEmail (collectionOf [bob]) (Str (utf16 ''bob@b.com'')) = Resolved (Some bob)"
    by (simp add: collectionOf_def bob_def)
  have "rejectsWith 409
     (JObject [(''error'',
        JObject [(''username'', JString (utf16 ''An account with this email already exists.''))])])
     (incoming None (noBody\<lparr>email := Some (Str (utf16 ''bob@b.com''))\<rparr>) noQuery)
     (isEmailNotAlreadyInUse (collectionOf [bob])
       (incoming None (noBody\<lparr>email := Some (Str (utf16 ''bob@b.com''))\<rparr>) noQuery))"
    using email_conflict_keyed_by_username
      [of "incoming None (noBody\<lparr>email := Some (Str (utf16 ''bob@b.com''))\<rparr>) noQuery"
        "utf16 ''bob@b.com''" "collectionOf [bob]" bob]
      owner
    by (simp add: incoming_def noBody_def)
  then show ?thesis by (simp add: rejectsWith_def collectionOf_resolves)
qed

section \<open>Properties of a chain of checks\<close>

text \<open>
  A check that calls \<^verbatim>\<open>next()\<close> changes nothing else, and whether it does so depends
  neither on the count of earlier calls nor on the response.
\<close>

lemma runCheck_callNext:
  "nextCalls h < nextCalls (runCheck c db h) \<Longrightarrow> runCheck c db h = callNext h"
  by (cases c) (auto simp add: checks ops Let_def split: if_splits option.splits promise.splits)

lemma runCheck_after_callNext:
  "nextCalls (callNext h) < nextCalls (runCheck c db (callNext h))
   \<longleftrightarrow> nextCalls h < nextCalls (runCheck c db h)"
  by (cases c) (auto simp add: checks ops Let_def split: if_splits option.splits promise.splits)

text \<open>Only \<^verbatim>\<open>isCurrentSessionUserExists\<close> ever writes to the request.\<close>

lemma runCheck_req:
  "c \<noteq> IsCurrentSessionUserExists \<Longrightarrow> req (runCheck c db h) = req h"
  by (cases c) (auto simp add: checks ops Let_def split: if_splits option.splits promise.splits)

text \<open>The handler is reached exactly when every check of the chain passes the incoming request.\<close>

lemma reachesHandler_iff:
  "reachesHandler cs db h \<longleftrightarrow> (\<forall>c \<in> set cs. nextCalls h < nextCalls (runCheck c db h))"
proof (induction cs arbitrary: h)
  case Nil
  show ?case by (simp add: reachesHandler_def)
next
  case (Cons c cs)
  show ?case
  proof (cases "nextCalls h < nextCalls (runCheck c db h)")
    case True
    then have "reachesHandler (c # cs) db h = reachesHandler cs db (callNext h)"
      by (simp add: reachesHandler_def runCheck_callNext)
    with True show ?thesis
      by (simp add: Cons.IH runCheck_after_callNext)
  next
    case False
    then show ?thesis by (simp add: reachesHandler_def)
  qed
qed

lemma gated_route_accepts:
  "reachesHandler [IsUserLoggedIn, IsValidUsername] (collectionOf [bob])
     (incoming (Some (utf16 ''b0b'')) (noBody\<lparr>username := Some (Str (utf16 ''alice_92''))\<rparr>) noQuery)"
  using test_username_alice_92
  by (simp add: reachesHandler_def isUserLoggedIn_def isValidUsername_def truthy_def ops incoming_def
      noBody_def Let_def)

text \<open>
  C9. Swapping two checks of a route's chain, wherever they stand in it, does not change
  whether the request reaches the handler; and every check but
  \<^verbatim>\<open>isCurrentSessionUserExists\<close> leaves the request as it was.
\<close>

theorem swap_keeps_outcome:
  "reachesHandler (pre @ a # mid @ b # post) db h = reachesHandler (pre @ b # mid @ a # post) db h
   \<and> (a \<noteq> IsCurrentSessionUserExists \<longrightarrow> req (runCheck a db h) = req h)"
  by (auto simp add: reachesHandler_iff runCheck_req)

theorem swap_keeps_outcome_witness:
  "reachesHandler [IsValidUsername, IsUserLoggedIn] (collectionOf [bob])
     (incoming (Some (utf16 ''b0b'')) (noBody\<lparr>username := Some (Str (utf16 ''alice_92''))\<rparr>) noQuery)
   \<and> req (runCheck IsUserLoggedIn (collectionOf [bob])
        (incoming (Some (utf16 ''b0b'')) (noBody\<lparr>username := Some (Str (utf16 ''alice_92''))\<rparr>) noQuery))
     = req (incoming (Some (utf16 ''b0b'')) (noBody\<lparr>username := Some (Str (utf16 ''alice_92''))\<rparr>) noQuery)"
  using swap_keeps_outcome [of "[]" IsUserLoggedIn "[]" IsValidUsername "[]" "collectionOf [bob]"
      "incoming (Some (utf16 ''b0b'')) (noBody\<lparr>username := Some (Str (utf16 ''alice_92''))\<rparr>) noQuery"]
    gated_route_accepts
  by simp

text \<open>
  The error reported may differ with the order: a request that is not logged in and
  carries a malformed username gets 403 from one order and 400 from the other.
\<close>

lemma swap_changes_reported_error:
  "fst (runChain [IsUserLoggedIn, IsValidUsername] (collectionOf [bob])
     (incoming None (noBody\<lparr>username := Some (Str (utf16 ''al ice''))\<rparr>) noQuery))
   = json (JObject [(''error'',
        JObject [(''auth'', JString (utf16 ''You must be logged in to complete this action.''))])])
      (status 403 (incoming None (noBody\<lparr>username := Some (Str (utf16 ''al ice''))\<rparr>) noQuery))
   \<and> fst (runChain [IsValidUsername, IsUserLoggedIn] (collectionOf [bob])
     (incoming None (noBody\<lparr>username := Some (Str (utf16 ''al ice''))\<rparr>) noQuery))
   = json (JObject [(''error'',
        JObject [(''username'', JString (utf16 ''Username must be a nonempty alphanumeric string.''))])])
      (status 400 (incoming None (noBody\<lparr>username := Some (Str (utf16 ''al ice''))\<rparr>) noQuery))"
  using test_username_space
  by (simp add: isUserLoggedIn_def isValidUsername_def truthy_def ops incoming_def noBody_def Let_def)

text \<open>A route whose chain holds \<^verbatim>\<open>isUserLoggedIn\<close> never runs its handler for a session without a user.\<close>

lemma not_logged_in_never_reaches_handler:
  assumes "userId (session (req h)) = None" and "IsUserLoggedIn \<in> set cs"
  shows "\<not> reachesHandler cs db h"
proof
  assume "reachesHandler cs db h"
  with assms(2) have "nextCalls h < nextCalls (runCheck IsUserLoggedIn db h)"
    unfolding reachesHandler_iff by (rule bspec [rotated])
  with assms(1) show False
    by (simp add: isUserLoggedIn_def truthy_def ops)
qed

end
